theory Spec2Isabelle
  imports Main "HOL-Library.Word" "HOL-Library.AList"
begin

unbundle bit_operations_syntax

section \<open>Data common to all modules\<close>

text \<open>
  A Python \<open>bytes\<close> or \<open>bytearray\<close> value is a list of 8-bit words. A Python \<open>str\<close> is a
  list of Unicode code points (natural numbers below \<open>0x110000\<close>); \<open>ustr\<close> turns an ASCII
  literal into such a string. Python's unbounded integers that come from unsigned reads and
  are only decremented under a guard are natural numbers; the slot numbers of the text
  reference stack, which can be \<open>-1\<close>, are integers.
\<close>

type_synonym byte = "8 word"
type_synonym bytes = "byte list"
type_synonym pystr = "nat list"

definition ustr :: "string \<Rightarrow> pystr" where
  "ustr s = map of_char s"

definition bstr :: "string \<Rightarrow> bytes" where
  "bstr s = map of_char s"

text \<open>
  Every exception the modelled code can raise. The first eight are the \<open>RuntimeError\<close>s of
  the source, told apart by their message; the others are Python's built-in exceptions
  raised by \<open>assert\<close>, by indexing past the end, by \<open>chr\<close> and by \<open>bytes.decode\<close>.
\<close>

datatype error =
    UnexpectedEndOfFile
  | InvalidGammaEncoding
  | UnknownContainer2Compression
  | NeitherContainer1Nor2
  | FailedSpriteDecoding
  | UnknownInfoByte
  | JunkAtEndOfFile
  | MissingBaseLanguageText
  | AssertionError
  | IndexError
  | ValueError
  | UnicodeDecodeError

section \<open>binreader.py: BinaryReader\<close>

text \<open>
  The reader owns the unread rest of its file and, when a hash is attached, the hash object,
  represented by the bytes it has been fed so far.
\<close>

record BinaryReader =
  infile :: bytes
  hash :: "bytes option"

definition new_reader :: "bytes \<Rightarrow> bytes option \<Rightarrow> BinaryReader" where
  "new_reader f h = \<lparr>infile = f, hash = h\<rparr>"

definition detach_hash :: "BinaryReader \<Rightarrow> BinaryReader" where
  "detach_hash r = r\<lparr>hash := None\<rparr>"

text \<open>
  \<open>read\<close>: \<open>file.read(amount)\<close> returns at most \<open>amount\<close> bytes, fewer at the end of the
  file; an attached hash is fed whatever was read.
\<close>

definition feed_hash :: "bytes option \<Rightarrow> bytes \<Rightarrow> bytes option" where
  "feed_hash h b = (case h of None \<Rightarrow> None | Some fed \<Rightarrow> Some (fed @ b))"

definition read :: "BinaryReader \<Rightarrow> nat \<Rightarrow> bytes \<times> BinaryReader" where
  "read r amount =
     (let b = take amount (infile r)
      in (b, r\<lparr>infile := drop amount (infile r), hash := feed_hash (hash r) b\<rparr>))"

definition skip :: "BinaryReader \<Rightarrow> nat \<Rightarrow> BinaryReader" where
  "skip r amount = snd (read r amount)"

text \<open>\<open>str\<close>: read a zero-terminated string; the end of the file ends it as well.\<close>

function str_loop :: "bytes \<Rightarrow> BinaryReader \<Rightarrow> bytes \<times> BinaryReader" where
  "str_loop result r =
     (let (b, r') = read r 1
      in if b = [0] \<or> b = [] then (result, r') else str_loop (result @ b) r')"
  by pat_completeness auto
termination
  by (relation "measure (\<lambda>(result, r). length (infile r))")
     (auto simp: read_def Let_def take_Suc split: list.splits)

declare str_loop.simps [simp del]

definition str :: "BinaryReader \<Rightarrow> bytes \<times> BinaryReader" where
  "str r = str_loop [] r"

text \<open>Unsigned values of a byte string, as \<open>struct.unpack\<close> computes them.\<close>

fun le_value :: "bytes \<Rightarrow> nat" where
  "le_value [] = 0"
| "le_value (b # bs) = unat b + 256 * le_value bs"

definition be_value :: "bytes \<Rightarrow> nat" where
  "be_value bs = le_value (rev bs)"

definition uint8 :: "BinaryReader \<Rightarrow> error + (nat \<times> BinaryReader)" where
  "uint8 r =
     (let (b, r') = read r 1
      in if length b \<noteq> 1 then Inl UnexpectedEndOfFile else Inr (le_value b, r'))"

definition uint16 :: "BinaryReader \<Rightarrow> bool \<Rightarrow> error + (nat \<times> BinaryReader)" where
  "uint16 r be =
     (let (b, r') = read r 2
      in if length b \<noteq> 2 then Inl UnexpectedEndOfFile
         else Inr (if be then be_value b else le_value b, r'))"

definition uint24 :: "BinaryReader \<Rightarrow> bool \<Rightarrow> error + (nat \<times> BinaryReader)" where
  "uint24 r be =
     (let (b, r') = read r 3
      in if length b \<noteq> 3 then Inl UnexpectedEndOfFile
         else Inr (if be
                   then push_bit 16 (unat (b ! 0)) OR push_bit 8 (unat (b ! 1)) OR unat (b ! 2)
                   else push_bit 16 (unat (b ! 2)) OR push_bit 8 (unat (b ! 1)) OR unat (b ! 0),
                   r'))"

definition uint32 :: "BinaryReader \<Rightarrow> bool \<Rightarrow> error + (nat \<times> BinaryReader)" where
  "uint32 r be =
     (let (b, r') = read r 4
      in if length b \<noteq> 4 then Inl UnexpectedEndOfFile
         else Inr (if be then be_value b else le_value b, r'))"

text \<open>\<open>uint_ext\<close>: the NewGRF extended byte.\<close>

definition uint_ext :: "BinaryReader \<Rightarrow> error + (nat \<times> BinaryReader)" where
  "uint_ext r =
     (case uint8 r of
        Inl e \<Rightarrow> Inl e
      | Inr (b, r1) \<Rightarrow> if b = 0xFF then uint16 r1 False else Inr (b, r1))"

text \<open>\<open>gamma\<close>: the savegame-style gamma value, returned with the number of bytes read.\<close>

definition gamma :: "BinaryReader \<Rightarrow> error + ((nat \<times> nat) \<times> BinaryReader)" where
  "gamma r =
     (case uint8 r of
        Inl e \<Rightarrow> Inl e
      | Inr (b, r1) \<Rightarrow>
          if b AND 0x80 = 0 then Inr ((b AND 0x7F, 1), r1)
          else if b AND 0xC0 = 0x80 then
            (case uint8 r1 of Inl e \<Rightarrow> Inl e
             | Inr (v, r2) \<Rightarrow> Inr ((push_bit 8 (b AND 0x3F) OR v, 2), r2))
          else if b AND 0xE0 = 0xC0 then
            (case uint16 r1 True of Inl e \<Rightarrow> Inl e
             | Inr (v, r2) \<Rightarrow> Inr ((push_bit 16 (b AND 0x1F) OR v, 3), r2))
          else if b AND 0xF0 = 0xE0 then
            (case uint24 r1 True of Inl e \<Rightarrow> Inl e
             | Inr (v, r2) \<Rightarrow> Inr ((push_bit 24 (b AND 0x0F) OR v, 4), r2))
          else if b AND 0xF8 = 0xF0 then
            (case uint32 r1 True of Inl e \<Rightarrow> Inl e
             | Inr (v, r2) \<Rightarrow> Inr ((push_bit 32 (b AND 0x07) OR v, 5), r2))
          else Inl InvalidGammaEncoding)"



text \<open>
  Modelled from the spec: the repository contains the gamma decoder only. The encoder below
  writes the shortest form of section 4.1: \<open>0xxxxxxx\<close> for one byte, \<open>10xxxxxx\<close>,
  \<open>110xxxxx\<close>, \<open>1110xxxx\<close> and \<open>11110xxx\<close> followed by one to four further bytes in
  big-endian order; a value of 35 bits or more has no encoding.
\<close>

definition gamma_encode :: "nat \<Rightarrow> bytes option" where
  "gamma_encode v =
     (if v < 2 ^ 7 then Some [of_nat v]
      else if v < 2 ^ 14 then Some [of_nat (0x80 + v div 256), of_nat (v mod 256)]
      else if v < 2 ^ 21 then
        Some [of_nat (0xC0 + v div 65536), of_nat (v div 256 mod 256), of_nat (v mod 256)]
      else if v < 2 ^ 28 then
        Some [of_nat (0xE0 + v div 16777216), of_nat (v div 65536 mod 256),
              of_nat (v div 256 mod 256), of_nat (v mod 256)]
      else if v < 2 ^ 35 then
        Some [of_nat (0xF0 + v div 4294967296), of_nat (v div 16777216 mod 256),
              of_nat (v div 65536 mod 256), of_nat (v div 256 mod 256), of_nat (v mod 256)]
      else None)"

text \<open>
  Modelled from the spec: the length class that the leading bits of the first byte select,
  written with the value ranges of the five patterns; \<open>11111xxx\<close> (\<open>0xF8\<close> and above)
  selects none.
\<close>

definition gamma_length_class :: "byte \<Rightarrow> nat option" where
  "gamma_length_class b =
     (if b < 0x80 then Some 1
      else if b < 0xC0 then Some 2
      else if b < 0xE0 then Some 3
      else if b < 0xF0 then Some 4
      else if b < 0xF8 then Some 5
      else None)"

section \<open>grfstrings.py: control codes and the text reference stack\<close>

record CommandName =
  cn_base_name :: pystr
  cn_translation_name :: pystr

record StackParam =
  sp_offset :: int
  sp_size :: nat

record TextCommand =
  tc_base_name :: pystr
  tc_translation_name :: pystr
  tc_inline_param_size :: nat
  stack_param :: "StackParam list"

text \<open>
  The dataclasses derived from \<open>CommandName\<close> run its \<open>__post_init__\<close>: an empty
  translation name is replaced by the base name.
\<close>

definition post_init :: "pystr \<Rightarrow> pystr \<Rightarrow> pystr" where
  "post_init base translation = (if translation = [] then base else translation)"

definition new_CommandName :: "pystr \<Rightarrow> pystr \<Rightarrow> CommandName" where
  "new_CommandName base translation =
     \<lparr>cn_base_name = base, cn_translation_name = post_init base translation\<rparr>"

definition new_TextCommand :: "pystr \<Rightarrow> pystr \<Rightarrow> nat \<Rightarrow> TextCommand" where
  "new_TextCommand base translation inl =
     \<lparr>tc_base_name = base, tc_translation_name = post_init base translation,
      tc_inline_param_size = inl, stack_param = []\<rparr>"

text \<open>The three command handlers a control code can name.\<close>

datatype handler = standard_command_handler | push_word_handler | rotate_words_handler

record ControlCode =
  base_name :: pystr
  translation_name :: pystr
  inline_param_size :: nat
  stack_param_size :: "nat list"
  command_handler :: handler

definition new_ControlCode :: "pystr \<Rightarrow> nat \<Rightarrow> nat list \<Rightarrow> handler \<Rightarrow> ControlCode" where
  "new_ControlCode base inl sizes h =
     \<lparr>base_name = base, translation_name = post_init base [], inline_param_size = inl,
      stack_param_size = sizes, command_handler = h\<rparr>"

text \<open>The shapes in which the tables build their entries.\<close>

definition cc_default :: ControlCode where
  "cc_default = new_ControlCode [] 0 [] standard_command_handler"

definition cc_name :: "string \<Rightarrow> ControlCode" where
  "cc_name n = new_ControlCode (ustr n) 0 [] standard_command_handler"

definition cc_inline :: "nat \<Rightarrow> ControlCode" where
  "cc_inline k = new_ControlCode [] k [] standard_command_handler"

definition cc_stack :: "string \<Rightarrow> nat list \<Rightarrow> ControlCode" where
  "cc_stack n sizes = new_ControlCode (ustr n) 0 sizes standard_command_handler"

record TextRefStack =
  stack_index :: "int list"
  commands :: "TextCommand list"

definition new_TextRefStack :: TextRefStack where
  "new_TextRefStack = \<lparr>stack_index = map int [0..<64], commands = []\<rparr>"

text \<open>
  The loop of \<open>standard_command\<close> over the declared sizes: the assertion, then
  \<open>stack_index[0]\<close> (which raises on an empty list), then the deletion of the slice.
\<close>

fun take_params ::
  "nat list \<Rightarrow> int list \<Rightarrow> StackParam list \<Rightarrow> error + (int list \<times> StackParam list)" where
  "take_params [] idx params = Inr (idx, params)"
| "take_params (n # sizes) idx params =
     (if \<not> length idx \<ge> n then Inl AssertionError
      else case idx of
        [] \<Rightarrow> Inl IndexError
      | first # _ \<Rightarrow>
          take_params sizes (drop n idx) (params @ [\<lparr>sp_offset = first, sp_size = n\<rparr>]))"

definition standard_command :: "TextRefStack \<Rightarrow> ControlCode \<Rightarrow> error + TextRefStack" where
  "standard_command stack cc =
     (if inline_param_size cc > 0 \<or> stack_param_size cc \<noteq> [] then
        (let tc = new_TextCommand (base_name cc) (translation_name cc) (inline_param_size cc)
         in case take_params (stack_param_size cc) (stack_index stack) (stack_param tc) of
              Inl e \<Rightarrow> Inl e
            | Inr (idx, params) \<Rightarrow>
                Inr \<lparr>stack_index = idx,
                     commands = (if tc_base_name tc \<noteq> []
                                 then commands stack @ [tc\<lparr>stack_param := params\<rparr>]
                                 else commands stack)\<rparr>)
      else Inr stack)"

definition push_word :: "TextRefStack \<Rightarrow> ControlCode \<Rightarrow> error + TextRefStack" where
  "push_word stack cc = Inr (stack\<lparr>stack_index := [-1, -1] @ stack_index stack\<rparr>)"

definition rotate_words :: "TextRefStack \<Rightarrow> ControlCode \<Rightarrow> error + TextRefStack" where
  "rotate_words stack cc =
     (let idx = stack_index stack
      in if \<not> length idx \<ge> 8 then Inl AssertionError
         else Inr (stack\<lparr>stack_index :=
                     (drop 6 (take 8 idx) @ take 6 idx) @ drop 8 idx\<rparr>))"

text \<open>\<open>cc.command_handler(stack, cc)\<close>.\<close>

definition call_handler :: "ControlCode \<Rightarrow> TextRefStack \<Rightarrow> error + TextRefStack" where
  "call_handler cc stack =
     (case command_handler cc of
        standard_command_handler \<Rightarrow> standard_command stack cc
      | push_word_handler \<Rightarrow> push_word stack cc
      | rotate_words_handler \<Rightarrow> rotate_words stack cc)"

text \<open>\<open>get_stack_types\<close>: a dictionary in insertion order, later entries replacing earlier ones.\<close>

definition stack_param_types ::
  "TextCommand \<Rightarrow> StackParam \<Rightarrow> (int \<times> CommandName \<times> nat) list
     \<Rightarrow> (int \<times> CommandName \<times> nat) list" where
  "stack_param_types tc sp result =
     fold (\<lambda>i res. AList.update (sp_offset sp + int i)
                      (new_CommandName (tc_base_name tc) (tc_translation_name tc), i) res)
          [0..<sp_size sp] result"

definition get_stack_types :: "TextRefStack \<Rightarrow> (int \<times> CommandName \<times> nat) list" where
  "get_stack_types stack =
     fold (\<lambda>tc res. fold (stack_param_types tc) (stack_param tc) res) (commands stack) []"

subsection \<open>The tables\<close>

definition CTRL_CODES :: "(nat \<times> ControlCode) list" where
  "CTRL_CODES =
    [(0x01, cc_inline 1),
     (0x0E, cc_name ''{TINY_FONT}''),
     (0x0F, cc_name ''{BIG_FONT}''),
     (0x1F, cc_inline 2),
     (0x7B, cc_stack ''{COMMA}'' [4]),
     (0x7C, cc_stack ''{COMMA}'' [2]),
     (0x7D, cc_stack ''{COMMA}'' [1]),
     (0x7E, cc_stack ''{COMMA}'' [2]),
     (0x7F, cc_stack ''{CURRENCY_LONG}'' [4]),
     (0x80, cc_stack ''{STRING}'' [2]),
     (0x81, new_ControlCode (ustr ''{STRING}'') 2 [] standard_command_handler),
     (0x82, cc_stack ''{DATE_LONG}'' [2]),
     (0x83, cc_stack ''{DATE_SHORT}'' [2]),
     (0x84, cc_stack ''{SPEED}'' [2]),
     (0x85, cc_stack [] [2]),
     (0x86, new_ControlCode [] 0 [] rotate_words_handler),
     (0x87, cc_stack ''{VOLUME_LONG}'' [2]),
     (0x88, cc_name ''{BLUE}''),
     (0x89, cc_name ''{SILVER}''),
     (0x8A, cc_name ''{GOLD}''),
     (0x8B, cc_name ''{RED}''),
     (0x8C, cc_name ''{PURPLE}''),
     (0x8D, cc_name ''{LTBROWN}''),
     (0x8E, cc_name ''{ORANGE}''),
     (0x8F, cc_name ''{GREEN}''),
     (0x90, cc_name ''{YELLOW}''),
     (0x91, cc_name ''{DKGREEN}''),
     (0x92, cc_name ''{CREAM}''),
     (0x93, cc_name ''{BROWN}''),
     (0x94, cc_name ''{WHITE}''),
     (0x95, cc_name ''{LTBLUE}''),
     (0x96, cc_name ''{GRAY}''),
     (0x97, cc_name ''{DKBLUE}''),
     (0x98, cc_name ''{BLACK}''),
     (0x99, cc_inline 1),
     (0x9E, new_ControlCode [0x20AC] 0 [] standard_command_handler),
     (0x9F, new_ControlCode [0x0178] 0 [] standard_command_handler),
     (0xA0, cc_name ''{UP_ARROW}''),
     (0xAA, cc_name ''{DOWN_ARROW}''),
     (0xAC, cc_name ''{CHECKMARK}''),
     (0xAD, cc_name ''{CROSS}''),
     (0xAF, cc_name ''{RIGHT_ARROW}''),
     (0xB4, cc_name ''{TRAIN}''),
     (0xB5, cc_name ''{LORRY}''),
     (0xB6, cc_name ''{BUS}''),
     (0xB7, cc_name ''{PLANE}''),
     (0xB8, cc_name ''{SHIP}''),
     (0xB9, new_ControlCode [0x208B, 0x2081] 0 [] standard_command_handler),
     (0xBC, cc_name ''{SMALL_UP_ARROW}''),
     (0xBD, cc_name ''{SMALL_DOWN_ARROW}'')]"

definition EXT_CTRL_CODES :: "(nat \<times> ControlCode) list" where
  "EXT_CTRL_CODES =
    [(0x00, cc_stack ''{CURRENCY_LONG}'' [8]),
     (0x01, cc_stack ''{CURRENCY_LONG}'' [8]),
     (0x02, cc_default),
     (0x03, new_ControlCode [] 2 [] push_word_handler),
     (0x04, cc_inline 1),
     (0x06, cc_stack ''{HEX}'' [1]),
     (0x07, cc_stack ''{HEX}'' [2]),
     (0x08, cc_stack ''{HEX}'' [4]),
     (0x0B, cc_stack ''{HEX}'' [8]),
     (0x0C, cc_stack ''{STATION}'' [2]),
     (0x0D, cc_stack ''{WEIGHT_LONG}'' [2]),
     (0x0E, cc_inline 1),
     (0x0F, cc_inline 1),
     (0x10, cc_inline 1),
     (0x11, cc_inline 1),
     (0x12, cc_default),
     (0x13, cc_inline 1),
     (0x14, cc_default),
     (0x15, cc_inline 1),
     (0x16, cc_stack ''{DATE_LONG}'' [4]),
     (0x17, cc_stack ''{DATE_SHORT}'' [4]),
     (0x18, cc_stack ''{POWER}'' [2]),
     (0x19, cc_stack ''{VOLUME_SHORT}'' [2]),
     (0x1A, cc_stack ''{WEIGHT_SHORT}'' [2]),
     (0x1B, cc_stack ''{CARGO_LONG}'' [2, 2]),
     (0x1C, cc_stack ''{CARGO_SHORT}'' [2, 2]),
     (0x1D, cc_stack ''{CARGO_TINY}'' [2, 2]),
     (0x1E, cc_stack ''{CARGO_NAME}'' [2]),
     (0x1F, cc_name ''{PUSH_COLOUR}''),
     (0x20, cc_name ''{POP_COLOUR}''),
     (0x21, cc_stack ''{FORCE}'' [4])]"

definition ALIASES :: "(nat \<times> pystr) list" where
  "ALIASES =
    [(0x000D, ustr ''{}''),
     (0x007B, ustr ''{{}''),
     (0x00A0, ustr ''{NBSP}''),
     (0x00A9, ustr ''{COPYRIGHT}''),
     (0x200E, ustr ''{LRM}''),
     (0x200F, ustr ''{RLM}''),
     (0x202A, ustr ''{LRE}''),
     (0x202B, ustr ''{RLE}''),
     (0x202D, ustr ''{LRO}''),
     (0x202E, ustr ''{RLO}''),
     (0x202C, ustr ''{PDF}'')]"

text \<open>\<open>table.get(key, default)\<close>.\<close>

definition dict_get :: "('k \<times> 'v) list \<Rightarrow> 'k \<Rightarrow> 'v \<Rightarrow> 'v" where
  "dict_get d k dflt = (case map_of d k of None \<Rightarrow> dflt | Some v \<Rightarrow> v)"

subsection \<open>decodestr\<close>

definition getutf8 :: "bytes \<Rightarrow> nat \<Rightarrow> nat \<times> nat option" where
  "getutf8 b pos =
     (let at = (\<lambda>i. unat (b ! i)) in
      if pos + 1 \<le> length b \<and> at pos AND 0x80 = 0 then (1, Some (at pos))
      else if pos + 2 \<le> length b \<and> at pos AND 0xE0 = 0xC0 \<and> at (pos + 1) AND 0xC0 = 0x80
        then (2, Some (push_bit 6 (at pos AND 0x1F) OR (at (pos + 1) AND 0x3F)))
      else if pos + 3 \<le> length b \<and> at pos AND 0xF0 = 0xE0 \<and> at (pos + 1) AND 0xC0 = 0x80
              \<and> at (pos + 2) AND 0xC0 = 0x80
        then (3, Some (push_bit 12 (at pos AND 0x0F) OR push_bit 6 (at (pos + 1) AND 0x3F)
                        OR (at (pos + 2) AND 0x3F)))
      else if pos + 4 \<le> length b \<and> at pos AND 0xF8 = 0xF0 \<and> at (pos + 1) AND 0xC0 = 0x80
              \<and> at (pos + 2) AND 0xC0 = 0x80 \<and> at (pos + 3) AND 0xC0 = 0x80
        then (4, Some (push_bit 18 (at pos AND 0x07) OR push_bit 12 (at (pos + 1) AND 0x3F)
                        OR push_bit 6 (at (pos + 2) AND 0x3F) OR (at (pos + 3) AND 0x3F)))
      else (0, None))"

text \<open>
  The first half of the loop body: the next code point and the position after it. It is
  entered with \<open>pos < len(b)\<close> only. The source asserts that \<open>getutf8\<close> returned a
  code point whenever it returned a size other than 0.
\<close>

definition next_code :: "bytes \<Rightarrow> bool \<Rightarrow> nat \<Rightarrow> error + (nat \<times> nat)" where
  "next_code b is_unicode pos =
     (if is_unicode then
        (case getutf8 b pos of (n, c) \<Rightarrow>
           if n = 0 then Inr (0xE000 + unat (b ! pos), pos + 1)
           else (case c of None \<Rightarrow> Inl AssertionError | Some c' \<Rightarrow> Inr (c', pos + n)))
      else
        (let c = unat (b ! pos)
         in Inr (if map_of CTRL_CODES c \<noteq> None \<or> c = 0x9A then 0xE000 + c else c, pos + 1)))"

text \<open>The handling of a control code that the two dispatch branches share.\<close>

definition run_code ::
  "ControlCode \<Rightarrow> nat \<times> pystr \<times> TextRefStack \<Rightarrow> error + (nat \<times> pystr \<times> TextRefStack)" where
  "run_code cc st =
     (case st of (pos, result, stack) \<Rightarrow>
        (case call_handler cc stack of
           Inl e \<Rightarrow> Inl e
         | Inr stack' \<Rightarrow> Inr (pos + inline_param_size cc, result @ translation_name cc, stack')))"

text \<open>\<open>chr\<close> raises ValueError above \<open>0x10FFFF\<close>.\<close>

definition chr :: "nat \<Rightarrow> error + pystr" where
  "chr c = (if c > 0x10FFFF then Inl ValueError else Inr [c])"

text \<open>One iteration of the \<open>while\<close> loop, entered with \<open>pos < len(b)\<close>.\<close>

definition decode_step ::
  "bytes \<Rightarrow> bool \<Rightarrow> nat \<times> pystr \<times> TextRefStack \<Rightarrow> error + (nat \<times> pystr \<times> TextRefStack)" where
  "decode_step b is_unicode st =
     (case st of (pos0, result, stack) \<Rightarrow>
        (case next_code b is_unicode pos0 of
           Inl e \<Rightarrow> Inl e
         | Inr (c, pos) \<Rightarrow>
             if c = 0xE09A then
               (if \<not> pos < length b then Inl IndexError
                else run_code (dict_get EXT_CTRL_CODES (unat (b ! pos)) cc_default)
                       (pos + 1, result, stack))
             else if c \<ge> 0xE000 \<and> c \<le> 0xE0FF then
               run_code (dict_get CTRL_CODES (c - 0xE000) cc_default) (pos, result, stack)
             else if c \<ge> 32 \<or> c = 13 then
               (case chr c of
                  Inl e \<Rightarrow> Inl e
                | Inr s \<Rightarrow> Inr (pos, result @ dict_get ALIASES c s, stack))
             else Inr (pos, result, stack)))"

lemma decode_step_advances:
  "decode_step b is_unicode st = Inr st' \<Longrightarrow> fst st < fst st'"
  by (cases st)
     (auto simp: decode_step_def next_code_def run_code_def Let_def
           split: sum.splits if_splits prod.splits option.splits)

text \<open>The \<open>while pos < len(b)\<close> loop.\<close>

function decode_loop ::
  "bytes \<Rightarrow> bool \<Rightarrow> nat \<times> pystr \<times> TextRefStack \<Rightarrow> error + (nat \<times> pystr \<times> TextRefStack)" where
  "decode_loop b is_unicode st =
     (if fst st < length b then
        (case decode_step b is_unicode st of
           Inl e \<Rightarrow> Inl e
         | Inr st' \<Rightarrow> decode_loop b is_unicode st')
      else Inr st)"
  by pat_completeness auto
termination
proof (relation "measure (\<lambda>(b, is_unicode, st). length b - fst st)")
  show "wf (measure (\<lambda>(b, is_unicode, st). length b - fst st))" by simp
next
  fix b is_unicode st st'
  assume "fst st < length b" and "decode_step b is_unicode st = Inr st'"
  then show "((b, is_unicode, st'), (b, is_unicode, st))
               \<in> measure (\<lambda>(b, is_unicode, st). length b - fst st)"
    using decode_step_advances [of b is_unicode st st'] by simp
qed

declare decode_loop.simps [simp del]

text \<open>The same loop with a budget of iterations; \<open>None\<close> when the budget runs out.\<close>

fun decode_loop_fuel ::
  "nat \<Rightarrow> bytes \<Rightarrow> bool \<Rightarrow> nat \<times> pystr \<times> TextRefStack
     \<Rightarrow> (error + (nat \<times> pystr \<times> TextRefStack)) option" where
  "decode_loop_fuel 0 b is_unicode st = (if fst st < length b then None else Some (Inr st))"
| "decode_loop_fuel (Suc n) b is_unicode st =
     (if fst st < length b then
        (case decode_step b is_unicode st of
           Inl e \<Rightarrow> Some (Inl e)
         | Inr st' \<Rightarrow> decode_loop_fuel n b is_unicode st')
      else Some (Inr st))"

text \<open>What \<open>decodestr\<close> sets up before the loop: the input mode and the first state.\<close>

definition decode_start :: "bytes \<Rightarrow> bool \<times> (nat \<times> pystr \<times> TextRefStack)" where
  "decode_start b =
     (let is_unicode = (getutf8 b 0 = (2, Some 0x00DE))
      in (is_unicode, (if is_unicode then 2 else 0, [], new_TextRefStack)))"

definition decodestr :: "bytes \<Rightarrow> error + (pystr \<times> (int \<times> CommandName \<times> nat) list)" where
  "decodestr b =
     (case decode_start b of (is_unicode, st) \<Rightarrow>
        (case decode_loop b is_unicode st of
           Inl e \<Rightarrow> Inl e
         | Inr (pos, result, stack) \<Rightarrow> Inr (result, get_stack_types stack)))"

text \<open>The states the loop of \<open>decodestr b\<close> passes through.\<close>

inductive decode_reaches :: "bytes \<Rightarrow> nat \<times> pystr \<times> TextRefStack \<Rightarrow> bool" where
  start: "decode_reaches b (snd (decode_start b))"
| step: "decode_reaches b st \<Longrightarrow> fst st < length b
          \<Longrightarrow> decode_step b (fst (decode_start b)) st = Inr st' \<Longrightarrow> decode_reaches b st'"

subsection \<open>process_string\<close>

text \<open>
  A dictionary is an association list in insertion order; the keys of a Python dictionary
  are distinct. \<open>process_items\<close> is the loop over \<open>raw.items()\<close>.
\<close>

fun process_items :: "(nat \<times> bytes) list \<Rightarrow> (nat \<times> pystr) list \<Rightarrow> error + (nat \<times> pystr) list" where
  "process_items [] result = Inr result"
| "process_items ((lang_id, raw_text) # items) result =
     (case decodestr raw_text of
        Inl e \<Rightarrow> Inl e
      | Inr (text, _) \<Rightarrow> process_items items (AList.update lang_id text result))"

definition process_string :: "(nat \<times> bytes) list \<Rightarrow> error + (nat \<times> pystr) list" where
  "process_string raw =
     (case map_of raw 0x7F of
        None \<Rightarrow> Inl MissingBaseLanguageText
      | Some base \<Rightarrow>
          (case decodestr base of
             Inl e \<Rightarrow> Inl e
           | Inr (base_text, stack) \<Rightarrow> process_items raw [(0x7F, base_text)]))"

section \<open>Gamma values: decoding what was encoded\<close>

subsection \<open>Bit operations on natural numbers\<close>

lemma or_push_bit_add: "v < 2 ^ n \<Longrightarrow> push_bit n a OR v = a * 2 ^ n + (v::nat)"
proof -
  assume "v < 2 ^ n"
  then have v: "take_bit n v = v" by (rule take_bit_nat_eq_self)
  have "push_bit n a AND take_bit n v = 0"
    by (auto simp: bit_eq_iff bit_simps)
  then have "push_bit n a + take_bit n v = push_bit n a OR take_bit n v"
    by (rule disjunctive_add_eq_or)
  then show ?thesis by (simp add: v push_bit_eq_mult)
qed

lemma and_low_mod: "(b::nat) AND mask n = b mod 2 ^ n"
  by (simp flip: take_bit_eq_mask add: take_bit_eq_mod)

lemma and_high_div:
  "b < 2 ^ (n + k) \<Longrightarrow> (b::nat) AND push_bit n (mask k) = 2 ^ n * (b div 2 ^ n)"
proof -
  assume b: "b < 2 ^ (n + k)"
  have "drop_bit n b < 2 ^ k" using b
    by (simp add: drop_bit_eq_div less_mult_imp_div_less power_add mult.commute)
  then have t: "take_bit k (drop_bit n b) = drop_bit n b" by (rule take_bit_nat_eq_self)
  have "b AND push_bit n (mask k) = push_bit n (take_bit k (drop_bit n b))"
    by (auto simp: bit_eq_iff bit_simps)
  then have "b AND push_bit n (mask k) = push_bit n (drop_bit n b)"
    by (simp only: t)
  then show ?thesis
    by (simp add: push_bit_eq_mult drop_bit_eq_div)
qed

lemma div_eq_iff_range: "0 < n \<Longrightarrow> ((x::nat) div n = k) = (k * n \<le> x \<and> x < Suc k * n)"
proof -
  assume n: "0 < n"
  have "(x div n = k) = (k \<le> x div n \<and> x div n < Suc k)" by auto
  then show ?thesis using n
    by (simp only: less_eq_div_iff_mult_less_eq div_less_iff_less_mult)
qed

lemma and_80: "b < 256 \<Longrightarrow> ((b::nat) AND 0x80 = 0) = (b < 128)"
  using and_high_div [of b 7 1] div_eq_iff_range [of 128 b 0]
  by (simp add: push_bit_eq_mult mask_eq_exp_minus_1)
lemma and_C0: "b < 256 \<Longrightarrow> ((b::nat) AND 0xC0 = 0x80) = (128 \<le> b \<and> b < 192)"
  using and_high_div [of b 6 2] div_eq_iff_range [of 64 b 2]
  by (simp add: push_bit_eq_mult mask_eq_exp_minus_1)
lemma and_E0: "b < 256 \<Longrightarrow> ((b::nat) AND 0xE0 = 0xC0) = (192 \<le> b \<and> b < 224)"
  using and_high_div [of b 5 3] div_eq_iff_range [of 32 b 6]
  by (simp add: push_bit_eq_mult mask_eq_exp_minus_1)
lemma and_F0: "b < 256 \<Longrightarrow> ((b::nat) AND 0xF0 = 0xE0) = (224 \<le> b \<and> b < 240)"
  using and_high_div [of b 4 4] div_eq_iff_range [of 16 b 14]
  by (simp add: push_bit_eq_mult mask_eq_exp_minus_1)
lemma and_F8: "b < 256 \<Longrightarrow> ((b::nat) AND 0xF8 = 0xF0) = (240 \<le> b \<and> b < 248)"
  using and_high_div [of b 3 5] div_eq_iff_range [of 8 b 30]
  by (simp add: push_bit_eq_mult mask_eq_exp_minus_1)

lemma and_7F: "(b::nat) AND 0x7F = b mod 128"
  using and_low_mod [of b 7] by (simp add: mask_eq_exp_minus_1)
lemma and_3F: "(b::nat) AND 0x3F = b mod 64"
  using and_low_mod [of b 6] by (simp add: mask_eq_exp_minus_1)
lemma and_1F: "(b::nat) AND 0x1F = b mod 32"
  using and_low_mod [of b 5] by (simp add: mask_eq_exp_minus_1)
lemma and_0F: "(b::nat) AND 0x0F = b mod 16"
  using and_low_mod [of b 4] by (simp add: mask_eq_exp_minus_1)
lemma and_07: "(b::nat) AND 0x07 = b mod 8"
  using and_low_mod [of b 3] by (simp add: mask_eq_exp_minus_1)

lemmas and_byte = and_80 and_C0 and_E0 and_F0 and_F8 and_7F and_3F and_1F and_0F and_07

lemma mod_offset:
  "128 \<le> x \<Longrightarrow> x < 192 \<Longrightarrow> x mod 64 = x - (128::nat)"
  "192 \<le> x \<Longrightarrow> x < 224 \<Longrightarrow> x mod 32 = x - (192::nat)"
  "224 \<le> x \<Longrightarrow> x < 240 \<Longrightarrow> x mod 16 = x - (224::nat)"
  "240 \<le> x \<Longrightarrow> x < 248 \<Longrightarrow> x mod 8 = x - (240::nat)"
proof -
  have a: "\<And>y. y < 64 \<Longrightarrow> (128 + y) mod 64 = (y::nat)"
    and b: "\<And>y. y < 32 \<Longrightarrow> (192 + y) mod 32 = (y::nat)"
    and c: "\<And>y. y < 16 \<Longrightarrow> (224 + y) mod 16 = (y::nat)"
    and d: "\<And>y. y < 8 \<Longrightarrow> (240 + y) mod 8 = (y::nat)"
    by (simp_all add: mod_add_eq [symmetric])
  show "128 \<le> x \<Longrightarrow> x < 192 \<Longrightarrow> x mod 64 = x - (128::nat)"
    using a [of "x - 128"] by simp
  show "192 \<le> x \<Longrightarrow> x < 224 \<Longrightarrow> x mod 32 = x - (192::nat)"
    using b [of "x - 192"] by simp
  show "224 \<le> x \<Longrightarrow> x < 240 \<Longrightarrow> x mod 16 = x - (224::nat)"
    using c [of "x - 224"] by simp
  show "240 \<le> x \<Longrightarrow> x < 248 \<Longrightarrow> x mod 8 = x - (240::nat)"
    using d [of "x - 240"] by simp
qed

lemma unat_byte: "x < 256 \<Longrightarrow> unat (of_nat x :: byte) = x"
  by (simp add: unat_of_nat)

lemma unat_lt: "unat (b::byte) < 256"
  using unsigned_less [of b] by simp

subsection \<open>Reads from a reader whose next bytes are known\<close>

lemma feed_hash_append: "feed_hash (feed_hash h a) b = feed_hash h (a @ b)"
  by (simp add: feed_hash_def split: option.splits)

lemma uint8_Nil: "uint8 \<lparr>infile = [], hash = h\<rparr> = Inl UnexpectedEndOfFile"
  by (simp add: uint8_def read_def Let_def)

lemma uint8_Cons:
  "uint8 \<lparr>infile = b # bs, hash = h\<rparr> = Inr (unat b, \<lparr>infile = bs, hash = feed_hash h [b]\<rparr>)"
  by (simp add: uint8_def read_def Let_def)

lemma uint16_Cons:
  "uint16 \<lparr>infile = a # b # bs, hash = h\<rparr> be =
     Inr (if be then unat a * 256 + unat b else unat a + 256 * unat b,
          \<lparr>infile = bs, hash = feed_hash h [a, b]\<rparr>)"
  by (simp add: uint16_def read_def Let_def be_value_def)

lemma uint24_Cons:
  "uint24 \<lparr>infile = a # b # c # bs, hash = h\<rparr> True =
     Inr (unat a * 65536 + unat b * 256 + unat c,
          \<lparr>infile = bs, hash = feed_hash h [a, b, c]\<rparr>)"
proof -
  have "push_bit 16 (unat a) OR push_bit 8 (unat b) OR unat c
          = unat a * 65536 + unat b * 256 + unat c"
    using or_push_bit_add [of "unat c" 8 "unat b"]
      or_push_bit_add [of "unat b * 256 + unat c" 16 "unat a"]
      unat_lt [of a] unat_lt [of b] unat_lt [of c]
    by simp
  then show ?thesis
    by (simp add: uint24_def read_def Let_def)
qed

lemma uint32_Cons:
  "uint32 \<lparr>infile = a # b # c # d # bs, hash = h\<rparr> True =
     Inr (unat a * 16777216 + unat b * 65536 + unat c * 256 + unat d,
          \<lparr>infile = bs, hash = feed_hash h [a, b, c, d]\<rparr>)"
  by (simp add: uint32_def read_def Let_def be_value_def)

lemmas read_Cons = uint8_Cons uint16_Cons uint24_Cons uint32_Cons feed_hash_append

subsection \<open>The five forms\<close>

lemma gamma_form1:
  "unat b < 128 \<Longrightarrow> gamma \<lparr>infile = b # rest, hash = h\<rparr>
     = Inr ((unat b, 1), \<lparr>infile = rest, hash = feed_hash h [b]\<rparr>)"
  using unat_lt [of b] by (simp add: gamma_def read_Cons and_byte)

lemma gamma_form2:
  "128 \<le> unat b \<Longrightarrow> unat b < 192 \<Longrightarrow> gamma \<lparr>infile = b # c # rest, hash = h\<rparr>
     = Inr (((unat b - 128) * 256 + unat c, 2), \<lparr>infile = rest, hash = feed_hash h [b, c]\<rparr>)"
  using or_push_bit_add [of "unat c" 8 "unat b - 128"] unat_lt [of c] unat_lt [of b]
  by (simp add: gamma_def read_Cons and_byte mod_offset)

lemma gamma_form3:
  "192 \<le> unat b \<Longrightarrow> unat b < 224 \<Longrightarrow> gamma \<lparr>infile = b # c # d # rest, hash = h\<rparr>
     = Inr (((unat b - 192) * 65536 + (unat c * 256 + unat d), 3),
            \<lparr>infile = rest, hash = feed_hash h [b, c, d]\<rparr>)"
  using or_push_bit_add [of "unat c * 256 + unat d" 16 "unat b - 192"]
    unat_lt [of c] unat_lt [of d] unat_lt [of b]
  by (simp add: gamma_def read_Cons and_byte mod_offset)

lemma gamma_form4:
  "224 \<le> unat b \<Longrightarrow> unat b < 240 \<Longrightarrow> gamma \<lparr>infile = b # c # d # e # rest, hash = h\<rparr>
     = Inr (((unat b - 224) * 16777216 + (unat c * 65536 + unat d * 256 + unat e), 4),
            \<lparr>infile = rest, hash = feed_hash h [b, c, d, e]\<rparr>)"
  using or_push_bit_add [of "unat c * 65536 + unat d * 256 + unat e" 24 "unat b - 224"]
    unat_lt [of c] unat_lt [of d] unat_lt [of e] unat_lt [of b]
  by (simp add: gamma_def read_Cons and_byte mod_offset)

lemma gamma_form5:
  "240 \<le> unat b \<Longrightarrow> unat b < 248 \<Longrightarrow>
   gamma \<lparr>infile = b # c # d # e # f # rest, hash = h\<rparr>
     = Inr (((unat b - 240) * 4294967296
              + (unat c * 16777216 + unat d * 65536 + unat e * 256 + unat f), 5),
            \<lparr>infile = rest, hash = feed_hash h [b, c, d, e, f]\<rparr>)"
  using or_push_bit_add [of "unat c * 16777216 + unat d * 65536 + unat e * 256 + unat f" 32
      "unat b - 240"]
    unat_lt [of c] unat_lt [of d] unat_lt [of e] unat_lt [of f] unat_lt [of b]
  by (simp add: gamma_def read_Cons and_byte mod_offset)

lemma gamma_invalid:
  "248 \<le> unat b \<Longrightarrow> gamma \<lparr>infile = b # rest, hash = h\<rparr> = Inl InvalidGammaEncoding"
  using unat_lt [of b] by (simp add: gamma_def read_Cons and_byte)


lemma uint8_Inr:
  "uint8 r = Inr (v, r') \<Longrightarrow> \<exists>b bs. infile r = b # bs \<and> v = unat b \<and> infile r' = bs"
  by (cases "infile r") (auto simp: uint8_def read_def Let_def split: if_splits)

lemma uint16_Inr: "uint16 r be = Inr (v, r') \<Longrightarrow> 2 \<le> length (infile r) \<and> infile r' = drop 2 (infile r)"
  by (auto simp: uint16_def read_def Let_def split: if_splits)
lemma uint24_Inr: "uint24 r be = Inr (v, r') \<Longrightarrow> 3 \<le> length (infile r) \<and> infile r' = drop 3 (infile r)"
  by (auto simp: uint24_def read_def Let_def split: if_splits)
lemma uint32_Inr: "uint32 r be = Inr (v, r') \<Longrightarrow> 4 \<le> length (infile r) \<and> infile r' = drop 4 (infile r)"
  by (auto simp: uint32_def read_def Let_def split: if_splits)

lemma byte_less: "((b::byte) < 0x80) = (unat b < 128)" "((b::byte) < 0xC0) = (unat b < 192)"
  "((b::byte) < 0xE0) = (unat b < 224)" "((b::byte) < 0xF0) = (unat b < 240)"
  "((b::byte) < 0xF8) = (unat b < 248)"
  by (simp_all add: word_less_nat_alt)

lemma gamma_length_class_unat:
  "gamma_length_class b =
     (if unat b < 128 then Some 1 else if unat b < 192 then Some 2
      else if unat b < 224 then Some 3 else if unat b < 240 then Some 4
      else if unat b < 248 then Some 5 else None)"
  by (simp add: gamma_length_class_def byte_less)

lemma gamma_consumed:
  assumes "gamma r = Inr ((v, n), r')"
  shows "\<exists>b bs. infile r = b # bs \<and> gamma_length_class b = Some n
           \<and> n \<le> length (infile r) \<and> infile r' = drop n (infile r)"
proof -
  from assms obtain x r1 where u: "uint8 r = Inr (x, r1)"
    by (auto simp: gamma_def split: sum.splits)
  then obtain b bs where b: "infile r = b # bs" "x = unat b" "infile r1 = bs"
    using uint8_Inr by blast
  have x: "x < 256" using b unat_lt by simp
  consider "x < 128" | "128 \<le> x" "x < 192" | "192 \<le> x" "x < 224" | "224 \<le> x" "x < 240"
    | "240 \<le> x" "x < 248" | "248 \<le> x" by linarith
  then show ?thesis
  proof cases
    case 1
    with assms u x b show ?thesis
      by (auto simp: gamma_def and_byte gamma_length_class_unat)
  next
    case 2
    with assms u x obtain w where "uint8 r1 = Inr (w, r')" "n = 2"
      by (auto simp: gamma_def and_byte split: sum.splits)
    with uint8_Inr [of r1 w r'] b 2 show ?thesis
      by (auto simp: gamma_length_class_unat)
  next
    case 3
    with assms u x obtain w where "uint16 r1 True = Inr (w, r')" "n = 3"
      by (auto simp: gamma_def and_byte split: sum.splits)
    with uint16_Inr [of r1 True w r'] b 3 show ?thesis
      by (auto simp: gamma_length_class_unat)
  next
    case 4
    with assms u x obtain w where "uint24 r1 True = Inr (w, r')" "n = 4"
      by (auto simp: gamma_def and_byte split: sum.splits)
    with uint24_Inr [of r1 True w r'] b 4 show ?thesis
      by (auto simp: gamma_length_class_unat)
  next
    case 5
    with assms u x obtain w where "uint32 r1 True = Inr (w, r')" "n = 5"
      by (auto simp: gamma_def and_byte split: sum.splits)
    with uint32_Inr [of r1 True w r'] b 5 show ?thesis
      by (auto simp: gamma_length_class_unat)
  next
    case 6
    with assms u x show ?thesis
      by (auto simp: gamma_def and_byte split: sum.splits)
  qed
qed


lemma be_digits:
  fixes v :: nat
  shows "v div 256 * 256 + v mod 256 = v"
    and "v div 65536 * 65536 + (v div 256 mod 256 * 256 + v mod 256) = v"
    and "v div 16777216 * 16777216
           + (v div 65536 mod 256 * 65536 + v div 256 mod 256 * 256 + v mod 256) = v"
    and "v div 4294967296 * 4294967296
           + (v div 16777216 mod 256 * 16777216 + v div 65536 mod 256 * 65536
              + v div 256 mod 256 * 256 + v mod 256) = v"
proof -
  define w1 where "w1 = v div 256"
  define w2 where "w2 = w1 div 256"
  define w3 where "w3 = w2 div 256"
  have e2: "v div 65536 = w2" unfolding w2_def w1_def by (simp add: div_mult2_eq)
  have e3: "v div 16777216 = w3" unfolding w3_def w2_def w1_def by (simp add: div_mult2_eq)
  have e4: "v div 4294967296 = w3 div 256"
    unfolding w3_def w2_def w1_def by (simp add: div_mult2_eq)
  have 1: "w1 * 256 + v mod 256 = v" unfolding w1_def by (rule div_mult_mod_eq)
  have 2: "w2 * 256 + w1 mod 256 = w1" unfolding w2_def by (rule div_mult_mod_eq)
  have 3: "w3 * 256 + w2 mod 256 = w2" unfolding w3_def by (rule div_mult_mod_eq)
  have 4: "w3 div 256 * 256 + w3 mod 256 = w3" by (rule div_mult_mod_eq)
  show "v div 256 * 256 + v mod 256 = v" by (rule div_mult_mod_eq)
  from 1 2 have "w2 * 65536 + (w1 mod 256 * 256 + v mod 256) = v" by linarith
  then show "v div 65536 * 65536 + (v div 256 mod 256 * 256 + v mod 256) = v"
    unfolding e2 w1_def .
  from 1 2 3 have "w3 * 16777216 + (w2 mod 256 * 65536 + w1 mod 256 * 256 + v mod 256) = v"
    by linarith
  then show "v div 16777216 * 16777216
           + (v div 65536 mod 256 * 65536 + v div 256 mod 256 * 256 + v mod 256) = v"
    unfolding e3 e2 w1_def .
  from 1 2 3 4 have "w3 div 256 * 4294967296
      + (w3 mod 256 * 16777216 + w2 mod 256 * 65536 + w1 mod 256 * 256 + v mod 256) = v"
    by linarith
  then show "v div 4294967296 * 4294967296
           + (v div 16777216 mod 256 * 16777216 + v div 65536 mod 256 * 65536
              + v div 256 mod 256 * 256 + v mod 256) = v"
    unfolding e4 e3 e2 w1_def .
qed

lemma div_bounds:
  fixes v :: nat
  shows "v < 16384 \<Longrightarrow> v div 256 < 64" "v < 2097152 \<Longrightarrow> v div 65536 < 32"
    "v < 268435456 \<Longrightarrow> v div 16777216 < 16" "v < 34359738368 \<Longrightarrow> v div 4294967296 < 8"
  by (simp_all add: div_less_iff_less_mult)

lemma gamma_encode_decode:
  assumes v: "v < 2 ^ 35"
  shows "\<exists>enc. gamma_encode v = Some enc \<and> 1 \<le> length enc \<and> length enc \<le> 5
           \<and> gamma_length_class (hd enc) = Some (length enc)
           \<and> gamma \<lparr>infile = enc @ rest, hash = h\<rparr>
               = Inr ((v, length enc), \<lparr>infile = rest, hash = feed_hash h enc\<rparr>)"
proof -
  consider "v < 128" | "128 \<le> v" "v < 16384" | "16384 \<le> v" "v < 2097152"
    | "2097152 \<le> v" "v < 268435456" | "268435456 \<le> v" "v < 34359738368"
    using v by fastforce
  then show ?thesis
  proof cases
    case 1
    then have u: "unat (of_nat v :: byte) = v" by (simp add: unat_byte)
    show ?thesis using 1 gamma_form1 [of "of_nat v" rest h]
      by (simp add: gamma_encode_def u gamma_length_class_unat)
  next
    case 2
    define b :: byte where "b = of_nat (128 + v div 256)"
    define c :: byte where "c = of_nat (v mod 256)"
    have ub: "unat b = 128 + v div 256" unfolding b_def using div_bounds(1) [OF 2(2)]
      by (intro unat_byte) simp
    have uc: "unat c = v mod 256" unfolding c_def by (simp add: unat_byte)
    have enc: "gamma_encode v = Some [b, c]" using 2 by (simp add: gamma_encode_def b_def c_def)
    show ?thesis using gamma_form2 [of b c rest h] div_bounds(1) [OF 2(2)] be_digits(1) [of v]
      by (simp add: enc ub uc gamma_length_class_unat)
  next
    case 3
    define b :: byte where "b = of_nat (192 + v div 65536)"
    define c :: byte where "c = of_nat (v div 256 mod 256)"
    define d :: byte where "d = of_nat (v mod 256)"
    have ub: "unat b = 192 + v div 65536" unfolding b_def using div_bounds(2) [OF 3(2)]
      by (intro unat_byte) simp
    have uc: "unat c = v div 256 mod 256" unfolding c_def by (simp add: unat_byte)
    have ud: "unat d = v mod 256" unfolding d_def by (simp add: unat_byte)
    have enc: "gamma_encode v = Some [b, c, d]"
      using 3 by (simp add: gamma_encode_def b_def c_def d_def)
    show ?thesis
      using gamma_form3 [of b c d rest h] div_bounds(2) [OF 3(2)] be_digits(2) [of v]
      by (simp add: enc ub uc ud gamma_length_class_unat)
  next
    case 4
    define b :: byte where "b = of_nat (224 + v div 16777216)"
    define c :: byte where "c = of_nat (v div 65536 mod 256)"
    define d :: byte where "d = of_nat (v div 256 mod 256)"
    define e :: byte where "e = of_nat (v mod 256)"
    have ub: "unat b = 224 + v div 16777216" unfolding b_def using div_bounds(3) [OF 4(2)]
      by (intro unat_byte) simp
    have uc: "unat c = v div 65536 mod 256" unfolding c_def by (simp add: unat_byte)
    have ud: "unat d = v div 256 mod 256" unfolding d_def by (simp add: unat_byte)
    have ue: "unat e = v mod 256" unfolding e_def by (simp add: unat_byte)
    have enc: "gamma_encode v = Some [b, c, d, e]"
      using 4 by (simp add: gamma_encode_def b_def c_def d_def e_def)
    show ?thesis
      using gamma_form4 [of b c d e rest h] div_bounds(3) [OF 4(2)] be_digits(3) [of v]
      by (simp add: enc ub uc ud ue gamma_length_class_unat)
  next
    case 5
    define b :: byte where "b = of_nat (240 + v div 4294967296)"
    define c :: byte where "c = of_nat (v div 16777216 mod 256)"
    define d :: byte where "d = of_nat (v div 65536 mod 256)"
    define e :: byte where "e = of_nat (v div 256 mod 256)"
    define f :: byte where "f = of_nat (v mod 256)"
    have ub: "unat b = 240 + v div 4294967296" unfolding b_def using div_bounds(4) [OF 5(2)]
      by (intro unat_byte) simp
    have uc: "unat c = v div 16777216 mod 256" unfolding c_def by (simp add: unat_byte)
    have ud: "unat d = v div 65536 mod 256" unfolding d_def by (simp add: unat_byte)
    have ue: "unat e = v div 256 mod 256" unfolding e_def by (simp add: unat_byte)
    have uf: "unat f = v mod 256" unfolding f_def by (simp add: unat_byte)
    have enc: "gamma_encode v = Some [b, c, d, e, f]"
      using 5 by (simp add: gamma_encode_def b_def c_def d_def e_def f_def)
    show ?thesis
      using gamma_form5 [of b c d e f rest h] div_bounds(4) [OF 5(2)] be_digits(4) [of v]
      by (simp add: enc ub uc ud ue uf gamma_length_class_unat)
  qed
qed

lemma gamma_prefix_invalid:
  assumes "b AND 0xF8 = (0xF8::byte)"
  shows "gamma \<lparr>infile = b # rest, hash = h\<rparr> = Inl InvalidGammaEncoding"
proof -
  have "unat (b AND 0xF8) = unat b AND 248" by (simp add: unsigned_and_eq)
  with assms have "unat b AND 248 = 248" by simp
  moreover have "unat b AND push_bit 3 (mask 5) = 2 ^ 3 * (unat b div 2 ^ 3)"
    using and_high_div [of "unat b" 3 5] unat_lt [of b] by simp
  ultimately have "unat b div 8 = 31" by (simp add: push_bit_eq_mult mask_eq_exp_minus_1)
  then have "248 \<le> unat b" using div_eq_iff_range [of 8 "unat b" 31] by simp
  then show ?thesis by (rule gamma_invalid)
qed

text \<open>
  Claim C6. Every value below \<open>2 ^ 35\<close> has a gamma encoding, and decoding that encoding
  (followed by anything) returns the value together with the number of bytes of the
  encoding, which is between 1 and 5 and is the length class of the first byte; values of
  35 bits or more have no encoding. Whenever the decoder returns, the count it returns is
  the length class selected by the leading bits of the first byte and is exactly the number
  of bytes it has taken from the input. A first byte of the form \<open>11111xxx\<close> makes the
  decoder fail with the invalid-encoding error.
\<close>

theorem gamma_decode_encode:
  "(v < 2 ^ 35 \<longrightarrow>
      (\<exists>enc. gamma_encode v = Some enc \<and> 1 \<le> length enc \<and> length enc \<le> 5
         \<and> gamma_length_class (hd enc) = Some (length enc)
         \<and> gamma \<lparr>infile = enc @ rest, hash = h\<rparr>
             = Inr ((v, length enc), \<lparr>infile = rest, hash = feed_hash h enc\<rparr>)))
   \<and> (2 ^ 35 \<le> v \<longrightarrow> gamma_encode v = None)
   \<and> (gamma r = Inr ((w, n), r') \<longrightarrow>
        (\<exists>b bs. infile r = b # bs \<and> gamma_length_class b = Some n
           \<and> n \<le> length (infile r) \<and> infile r' = drop n (infile r)))
   \<and> (c AND 0xF8 = 0xF8 \<longrightarrow>
        gamma \<lparr>infile = c # rest', hash = h'\<rparr> = Inl InvalidGammaEncoding)"
proof (intro conjI impI)
  assume "v < 2 ^ 35"
  then show "\<exists>enc. gamma_encode v = Some enc \<and> 1 \<le> length enc \<and> length enc \<le> 5
         \<and> gamma_length_class (hd enc) = Some (length enc)
         \<and> gamma \<lparr>infile = enc @ rest, hash = h\<rparr>
             = Inr ((v, length enc), \<lparr>infile = rest, hash = feed_hash h enc\<rparr>)"
    by (rule gamma_encode_decode)
next
  assume "2 ^ 35 \<le> v"
  then show "gamma_encode v = None" by (simp add: gamma_encode_def)
next
  assume "gamma r = Inr ((w, n), r')"
  then show "\<exists>b bs. infile r = b # bs \<and> gamma_length_class b = Some n
           \<and> n \<le> length (infile r) \<and> infile r' = drop n (infile r)"
    by (rule gamma_consumed)
next
  assume "c AND 0xF8 = 0xF8"
  then show "gamma \<lparr>infile = c # rest', hash = h'\<rparr> = Inl InvalidGammaEncoding"
    by (rule gamma_prefix_invalid)
qed

theorem gamma_decode_encode_witness:
  "gamma_encode 300 = Some [0x81, 0x2C]
   \<and> gamma \<lparr>infile = [0x81, 0x2C, 7], hash = Some []\<rparr>
       = Inr ((300, 2), \<lparr>infile = [7], hash = Some [0x81, 0x2C]\<rparr>)
   \<and> gamma_length_class 0x81 = Some 2
   \<and> gamma \<lparr>infile = [0xF9, 1, 2, 3, 4], hash = None\<rparr> = Inl InvalidGammaEncoding"
proof -
  have e: "gamma_encode 300 = Some [0x81, 0x2C]" by (simp add: gamma_encode_def)
  have v: "(300::nat) < 2 ^ 35" by simp
  have c: "(0xF9::byte) AND 0xF8 = 0xF8" by simp
  note t = gamma_decode_encode [where v = 300 and rest = "[7]" and h = "Some []"
      and r = "\<lparr>infile = [0x81, 0x2C, 7], hash = Some []\<rparr>" and w = 300 and n = 2
      and r' = "\<lparr>infile = [7], hash = Some [0x81, 0x2C]\<rparr>"
      and c = "0xF9" and rest' = "[1, 2, 3, 4]" and h' = None]
  from t v e have g: "gamma \<lparr>infile = [0x81, 0x2C, 7], hash = Some []\<rparr>
       = Inr ((300, 2), \<lparr>infile = [7], hash = Some [0x81, 0x2C]\<rparr>)"
    by (simp add: feed_hash_def)
  from t g have "gamma_length_class 0x81 = Some 2" by simp
  moreover from t c have "gamma \<lparr>infile = [0xF9, 1, 2, 3, 4], hash = None\<rparr>
       = Inl InvalidGammaEncoding" by simp
  ultimately show ?thesis using e g by simp
qed

end
